theory Spec2Isabelle
  imports Main
begin

section \<open>Python values and exceptions\<close>

text \<open>
  The repository passes JSON-shaped Python values around as \<open>Any\<close>: the parsed
  arguments of a tool call and the result of a tool. They are modelled by one
  datatype. A Python \<open>dict\<close> keeps its keys in insertion order, so an object is an
  association list. A \<open>float\<close> is carried by its decimal text: binary rounding is
  not modelled, and no statement below depends on the equality of two floats.
  A Python \<open>str\<close> is a \<open>string\<close>, an \<open>int\<close> is an \<open>int\<close>.
\<close>

datatype json =
    JNull
  | JBool bool
  | JInt int
  | JFloat string
  | JString string
  | JArray "json list"
  | JObject "(string \<times> json) list"

text \<open>
  Every exception that the modelled code can raise is a value. \<open>ToolExecutionError\<close>
  keeps the tool name and the original error, as the class in
  \<open>api/domain/exceptions.py\<close> does; \<open>Exception\<close> stands for whatever a tool or
  its input schema raises.
\<close>

datatype error =
    ValueError string
  | KeyError int
  | JSONDecodeError
  | ToolNotFoundError string
  | ToolExecutionError string error
  | Exception string

text \<open>
  \<open>d[k] = v\<close> on a Python \<open>dict\<close>: a key that is present keeps its place in the
  iteration order, a new key goes to the end.
\<close>

fun dict_setitem :: "('k \<times> 'v) list \<Rightarrow> 'k \<Rightarrow> 'v \<Rightarrow> ('k \<times> 'v) list" where
  "dict_setitem [] k v = [(k, v)]"
| "dict_setitem ((k', v') # d) k v =
     (if k' = k then (k, v) # d else (k', v') # dict_setitem d k v)"

section \<open>The json module of the standard library\<close>

text \<open>
  \<open>json.loads\<close> and \<open>json.dumps\<close> belong to Python, not to the repository. The
  use case and the formatter below take them as parameters, and every general
  statement holds for any such functions. To run the code on a concrete input
  they are instantiated with the decoder and encoder of this section, written
  after \<open>json/decoder.py\<close>, \<open>json/scanner.py\<close> and \<open>json/encoder.py\<close> with their
  default options. Strings are over the code points below 256: a \<open>\u\<close> escape
  for a higher code point is reported as \<open>Unsupported\<close>, as is a document nested
  deeper than the recursion bound. \<open>json_loads\<close> has to answer there too and
  answers \<open>None\<close>, which is not what Python does; it is applied below only to
  documents on which the decoder answers \<open>Scanned\<close> or \<open>Malformed\<close>.
\<close>

datatype 'a scan = Scanned 'a string | Malformed | Unsupported

definition is_ws :: "char \<Rightarrow> bool" where
  "is_ws c = (c = CHR '' '' \<or> c = CHR 0x09 \<or> c = CHR 0x0A \<or> c = CHR 0x0D)"

definition skip_ws :: "string \<Rightarrow> string" where
  "skip_ws s = dropWhile is_ws s"

definition is_digit :: "char \<Rightarrow> bool" where
  "is_digit c = (48 \<le> (of_char c :: nat) \<and> (of_char c :: nat) \<le> 57)"

definition hex_val :: "char \<Rightarrow> nat option" where
  "hex_val c =
     (let n = (of_char c :: nat) in
      if 48 \<le> n \<and> n \<le> 57 then Some (n - 48)
      else if 97 \<le> n \<and> n \<le> 102 then Some (n - 87)
      else if 65 \<le> n \<and> n \<le> 70 then Some (n - 55)
      else None)"

fun hex4 :: "string \<Rightarrow> nat option" where
  "hex4 [a, b, c, d] =
     (case (hex_val a, hex_val b, hex_val c, hex_val d) of
        (Some w, Some x, Some y, Some z) \<Rightarrow> Some (((w * 16 + x) * 16 + y) * 16 + z)
      | _ \<Rightarrow> None)"
| "hex4 _ = None"

definition unescape :: "char \<Rightarrow> char option" where
  "unescape e =
     (if e = CHR 0x22 then Some (CHR 0x22)
      else if e = CHR 0x5C then Some (CHR 0x5C)
      else if e = CHR ''/'' then Some (CHR ''/'')
      else if e = CHR ''b'' then Some (CHR 0x08)
      else if e = CHR ''f'' then Some (CHR 0x0C)
      else if e = CHR ''n'' then Some (CHR 0x0A)
      else if e = CHR ''r'' then Some (CHR 0x0D)
      else if e = CHR ''t'' then Some (CHR 0x09)
      else None)"

fun scanstring :: "string \<Rightarrow> string \<Rightarrow> string scan" where
  "scanstring acc [] = Malformed"
| "scanstring acc (c # cs) =
     (if c = CHR 0x22 then Scanned (rev acc) cs
      else if c = CHR 0x5C then
        (case cs of
           [] \<Rightarrow> Malformed
         | e # cs' \<Rightarrow>
             (if e = CHR ''u'' then
                (case hex4 (take 4 cs') of
                   None \<Rightarrow> Malformed
                 | Some n \<Rightarrow>
                     (if n < 256 then scanstring (char_of n # acc) (drop 4 cs')
                      else Unsupported))
              else
                (case unescape e of
                   None \<Rightarrow> Malformed
                 | Some x \<Rightarrow> scanstring (x # acc) cs')))
      else if (of_char c :: nat) < 32 then Malformed
      else scanstring (c # acc) cs)"

fun nat_of_digits :: "nat \<Rightarrow> string \<Rightarrow> nat" where
  "nat_of_digits n [] = n"
| "nat_of_digits n (c # cs) = nat_of_digits (n * 10 + (of_char c - 48)) cs"

definition starts_with :: "string \<Rightarrow> string \<Rightarrow> bool" where
  "starts_with p s = (take (length p) s = p)"

definition match_number :: "string \<Rightarrow> json scan" where
  "match_number s =
     (let sign = (if starts_with ''-'' s then ''-'' else []);
          s1 = drop (length sign) s;
          whole = (if starts_with ''0'' s1 then ''0'' else takeWhile is_digit s1);
          s2 = drop (length whole) s1;
          fd = (case s2 of [] \<Rightarrow> [] | c # r \<Rightarrow> if c = CHR ''.'' then takeWhile is_digit r else []);
          frac = (if fd = [] then [] else CHR ''.'' # fd);
          s3 = drop (length frac) s2;
          ex = (case s3 of
                  [] \<Rightarrow> []
                | c # r \<Rightarrow>
                    if c = CHR ''e'' \<or> c = CHR ''E'' then
                      (let sg = (case r of [] \<Rightarrow> [] | g # _ \<Rightarrow>
                                   if g = CHR ''+'' \<or> g = CHR ''-'' then [g] else []);
                           ed = takeWhile is_digit (drop (length sg) r)
                       in if ed = [] then [] else c # sg @ ed)
                    else []);
          s4 = drop (length ex) s3
      in if whole = [] then Malformed
         else if frac = [] \<and> ex = [] then
           Scanned (JInt (if sign = [] then int (nat_of_digits 0 whole)
                          else - int (nat_of_digits 0 whole))) s4
         else Scanned (JFloat (sign @ whole @ frac @ ex)) s4)"

definition scan_atom :: "string \<Rightarrow> json scan" where
  "scan_atom s =
     (if starts_with ''null'' s then Scanned JNull (drop 4 s)
      else if starts_with ''true'' s then Scanned (JBool True) (drop 4 s)
      else if starts_with ''false'' s then Scanned (JBool False) (drop 5 s)
      else (case match_number s of
              Scanned v r \<Rightarrow> Scanned v r
            | Unsupported \<Rightarrow> Unsupported
            | Malformed \<Rightarrow>
                (if starts_with ''NaN'' s then Scanned (JFloat ''NaN'') (drop 3 s)
                 else if starts_with ''Infinity'' s then Scanned (JFloat ''Infinity'') (drop 8 s)
                 else if starts_with ''-Infinity'' s then Scanned (JFloat ''-Infinity'') (drop 9 s)
                 else Malformed)))"

fun scan_once :: "nat \<Rightarrow> string \<Rightarrow> json scan"
  and scan_array :: "nat \<Rightarrow> json list \<Rightarrow> string \<Rightarrow> json scan"
  and scan_object :: "nat \<Rightarrow> (string \<times> json) list \<Rightarrow> string \<Rightarrow> json scan" where
  "scan_once 0 s = Unsupported"
| "scan_once (Suc n) [] = Malformed"
| "scan_once (Suc n) (c # cs) =
     (if c = CHR 0x22 then
        (case scanstring [] cs of
           Scanned t r \<Rightarrow> Scanned (JString t) r
         | Malformed \<Rightarrow> Malformed
         | Unsupported \<Rightarrow> Unsupported)
      else if c = CHR ''{'' then
        (case skip_ws cs of
           [] \<Rightarrow> Malformed
         | x # r \<Rightarrow> if x = CHR ''}'' then Scanned (JObject []) r
                    else scan_object n [] (x # r))
      else if c = CHR ''['' then
        (case skip_ws cs of
           [] \<Rightarrow> Malformed
         | x # r \<Rightarrow> if x = CHR '']'' then Scanned (JArray []) r
                    else scan_array n [] (x # r))
      else scan_atom (c # cs))"
| "scan_array 0 acc s = Unsupported"
| "scan_array (Suc n) acc s =
     (case scan_once n s of
        Malformed \<Rightarrow> Malformed
      | Unsupported \<Rightarrow> Unsupported
      | Scanned v r \<Rightarrow>
          (case skip_ws r of
             [] \<Rightarrow> Malformed
           | x # r' \<Rightarrow>
               if x = CHR '']'' then Scanned (JArray (acc @ [v])) r'
               else if x = CHR '','' then scan_array n (acc @ [v]) (skip_ws r')
               else Malformed))"
| "scan_object 0 acc s = Unsupported"
| "scan_object (Suc n) acc s =
     (case s of
        [] \<Rightarrow> Malformed
      | q # s' \<Rightarrow>
          if q \<noteq> CHR 0x22 then Malformed
          else
            (case scanstring [] s' of
               Malformed \<Rightarrow> Malformed
             | Unsupported \<Rightarrow> Unsupported
             | Scanned k r \<Rightarrow>
                 (case skip_ws r of
                    [] \<Rightarrow> Malformed
                  | x # r' \<Rightarrow>
                      if x \<noteq> CHR '':'' then Malformed
                      else
                        (case scan_once n (skip_ws r') of
                           Malformed \<Rightarrow> Malformed
                         | Unsupported \<Rightarrow> Unsupported
                         | Scanned v r'' \<Rightarrow>
                             (case skip_ws r'' of
                                [] \<Rightarrow> Malformed
                              | y # t \<Rightarrow>
                                  if y = CHR ''}'' then
                                    Scanned (JObject (dict_setitem acc k v)) t
                                  else if y = CHR '','' then
                                    scan_object n (dict_setitem acc k v) (skip_ws t)
                                  else Malformed)))))"

definition json_decode :: "string \<Rightarrow> json scan" where
  "json_decode s =
     (case scan_once (Suc (2 * length s)) (skip_ws s) of
        Scanned v r \<Rightarrow> if skip_ws r = [] then Scanned v [] else Malformed
      | Malformed \<Rightarrow> Malformed
      | Unsupported \<Rightarrow> Unsupported)"

definition json_loads :: "string \<Rightarrow> json option" where
  "json_loads s = (case json_decode s of Scanned v r \<Rightarrow> Some v | _ \<Rightarrow> None)"

text \<open>\<open>json.dumps\<close> with the default separators and \<open>ensure_ascii=True\<close>.\<close>

fun str_nat :: "nat \<Rightarrow> string" where
  "str_nat n =
     (if n < 10 then [char_of (48 + n)]
      else str_nat (n div 10) @ [char_of (48 + n mod 10)])"

definition str_int :: "int \<Rightarrow> string" where
  "str_int i = (if i < 0 then CHR ''-'' # str_nat (nat (- i)) else str_nat (nat i))"

definition hex_digit :: "nat \<Rightarrow> char" where
  "hex_digit n = (if n < 10 then char_of (48 + n) else char_of (87 + n))"

definition escape_char :: "char \<Rightarrow> string" where
  "escape_char c =
     (if c = CHR 0x22 then [CHR 0x5C, CHR 0x22]
      else if c = CHR 0x5C then [CHR 0x5C, CHR 0x5C]
      else if c = CHR 0x0A then [CHR 0x5C, CHR ''n'']
      else if c = CHR 0x0D then [CHR 0x5C, CHR ''r'']
      else if c = CHR 0x09 then [CHR 0x5C, CHR ''t'']
      else if c = CHR 0x08 then [CHR 0x5C, CHR ''b'']
      else if c = CHR 0x0C then [CHR 0x5C, CHR ''f'']
      else if 32 \<le> (of_char c :: nat) \<and> (of_char c :: nat) \<le> 126 then [c]
      else [CHR 0x5C, CHR ''u'', CHR ''0'', CHR ''0'',
            hex_digit ((of_char c :: nat) div 16), hex_digit ((of_char c :: nat) mod 16)])"

definition encode_basestring_ascii :: "string \<Rightarrow> string" where
  "encode_basestring_ascii s = CHR 0x22 # concat (map escape_char s) @ [CHR 0x22]"

fun join :: "string \<Rightarrow> string list \<Rightarrow> string" where
  "join sep [] = []"
| "join sep [x] = x"
| "join sep (x # y # ys) = x @ sep @ join sep (y # ys)"

fun json_dumps :: "json \<Rightarrow> string" where
  "json_dumps JNull = ''null''"
| "json_dumps (JBool b) = (if b then ''true'' else ''false'')"
| "json_dumps (JInt i) = str_int i"
| "json_dumps (JFloat f) = f"
| "json_dumps (JString s) = encode_basestring_ascii s"
| "json_dumps (JArray xs) = ''['' @ join '', '' (map json_dumps xs) @ '']''"
| "json_dumps (JObject ps) =
     ''{'' @ join '', ''
               (map (\<lambda>(k, v). encode_basestring_ascii k @ '': '' @ json_dumps v) ps) @ ''}''"

section \<open>Domain entities (api/domain/entities)\<close>

subsection \<open>tool.py\<close>

record ToolCall =
  tc_id :: string
  tc_name :: string
  tc_arguments :: json

record ToolResult =
  tr_call_id :: string
  tr_name :: string
  tr_result :: json

text \<open>
  A frozen dataclass is built by its generated \<open>__init__\<close>, which stores the fields
  and then runs \<open>__post_init__\<close>. \<open>not s\<close> on a Python string is true exactly for
  the empty string.
\<close>

definition ToolCall_new :: "string \<Rightarrow> string \<Rightarrow> json \<Rightarrow> error + ToolCall" where
  "ToolCall_new i n a =
     (if i = [] then Inl (ValueError ''ToolCall id cannot be empty'')
      else if n = [] then Inl (ValueError ''ToolCall name cannot be empty'')
      else Inr \<lparr>tc_id = i, tc_name = n, tc_arguments = a\<rparr>)"

definition ToolResult_new :: "string \<Rightarrow> string \<Rightarrow> json \<Rightarrow> error + ToolResult" where
  "ToolResult_new c n r =
     (if c = [] then Inl (ValueError ''ToolResult call_id cannot be empty'')
      else Inr \<lparr>tr_call_id = c, tr_name = n, tr_result = r\<rparr>)"

subsection \<open>events.py\<close>

record UsageStats =
  prompt_tokens :: int
  completion_tokens :: int
  total_tokens :: int

text \<open>\<open>UsageStats\<close> has no \<open>__post_init__\<close>: its constructor only stores the fields.\<close>

definition UsageStats_new :: "int \<Rightarrow> int \<Rightarrow> int \<Rightarrow> error + UsageStats" where
  "UsageStats_new p c t =
     Inr \<lparr>prompt_tokens = p, completion_tokens = c, total_tokens = t\<rparr>"

datatype StreamEvent =
    TextDelta string
  | ToolCallStarted string string
  | ToolCallArgumentChunk string string
  | ToolCallCompleted ToolCall
  | ToolResultAvailable ToolResult
  | CompletionFinished string UsageStats

section \<open>Ports (api/domain/ports)\<close>

subsection \<open>llm_provider.py\<close>

text \<open>
  \<open>LLMToolCallDelta index id name arguments_chunk\<close>: the last three fields are
  \<open>Optional[str]\<close>. \<open>LLMFinished finish_reason prompt_tokens completion_tokens\<close>
  has no field for a total. The stream a provider yields is the finite list of
  the events it produces before it is exhausted.
\<close>

datatype LLMEvent =
    LLMTextDelta string
  | LLMToolCallDelta int "string option" "string option" "string option"
  | LLMFinished string int int

subsection \<open>tool_executor.py\<close>

text \<open>
  The use case sees the executor through \<open>IToolExecutor.execute\<close>: a tool call
  goes in, a result comes back or an exception is raised.
\<close>

type_synonym tool_executor = "ToolCall \<Rightarrow> error + ToolResult"

section \<open>Tool executor (api/infrastructure/tools/tool_executor.py)\<close>

text \<open>
  A registered tool is what \<open>tool.execute(tool.input_schema(**arguments))\<close>
  computes from the arguments: a value, or the exception raised by the
  unpacking \<open>**arguments\<close> (a \<open>TypeError\<close> when the arguments are not an
  object), by the schema or by the tool. The registry \<open>_tools\<close> maps names to
  tools. Everything after the registry lookup runs inside
  \<open>try ... except Exception\<close>, the construction of the \<open>ToolResult\<close> included.
\<close>

type_synonym tool = "json \<Rightarrow> error + json"

definition ToolExecutor_execute :: "(string \<rightharpoonup> tool) \<Rightarrow> tool_executor" where
  "ToolExecutor_execute tools tool_call =
     (case tools (tc_name tool_call) of
        None \<Rightarrow> Inl (ToolNotFoundError (tc_name tool_call))
      | Some tool \<Rightarrow>
          (case tool (tc_arguments tool_call) of
             Inl e \<Rightarrow> Inl (ToolExecutionError (tc_name tool_call) e)
           | Inr result \<Rightarrow>
               (case ToolResult_new (tc_id tool_call) (tc_name tool_call) result of
                  Inl e \<Rightarrow> Inl (ToolExecutionError (tc_name tool_call) e)
                | Inr tool_result \<Rightarrow> Inr tool_result)))"

section \<open>Streaming use case (api/application/use_cases/stream_chat_completion.py)\<close>

subsection \<open>The accumulator\<close>

text \<open>
  \<open>tool_calls_in_progress\<close> is a \<open>Dict[int, Dict[str, str]]\<close>. Python iterates a
  dict in the order its keys were first inserted, and assigning to a key that
  is present keeps the key where it is. The inner dict always has the three
  keys \<open>'id'\<close>, \<open>'name'\<close> and \<open>'arguments'\<close>.
\<close>

record tool_data =
  td_id :: string
  td_name :: string
  td_arguments :: string

type_synonym 'v pydict = "(int \<times> 'v) list"

definition dict_getitem :: "('k \<times> 'v) list \<Rightarrow> 'k \<Rightarrow> 'v option" where
  "dict_getitem d k = map_of d k"

definition dict_keys :: "('k \<times> 'v) list \<Rightarrow> 'k list" where
  "dict_keys d = map fst d"

definition dict_values :: "('k \<times> 'v) list \<Rightarrow> 'v list" where
  "dict_values d = map snd d"

subsection \<open>What an observer sees\<close>

text \<open>
  \<open>execute\<close> is an async generator. An observer sees the events it yields and the
  calls it makes to the executor, in order, and then either the end of the
  iteration or an exception. Events yielded before an exception have been
  delivered.
\<close>

datatype action =
    Yield StreamEvent
  | Execute ToolCall

fun emitted :: "action list \<Rightarrow> StreamEvent list" where
  "emitted [] = []"
| "emitted (Yield e # as) = e # emitted as"
| "emitted (Execute c # as) = emitted as"

fun attempted :: "action list \<Rightarrow> ToolCall list" where
  "attempted [] = []"
| "attempted (Yield e # as) = attempted as"
| "attempted (Execute c # as) = c # attempted as"

subsection \<open>The loop body\<close>

text \<open>\<open>event.name or ''\<close>.\<close>

definition or_empty :: "string option \<Rightarrow> string" where
  "or_empty s = (case s of None \<Rightarrow> [] | Some t \<Rightarrow> t)"

text \<open>The branch \<open>if event.id is not None\<close>.\<close>

definition start_tool_call ::
  "tool_data pydict \<Rightarrow> int \<Rightarrow> string option \<Rightarrow> string option
     \<Rightarrow> action list \<times> tool_data pydict" where
  "start_tool_call d index ident name =
     (case ident of
        None \<Rightarrow> ([], d)
      | Some i \<Rightarrow>
          ([Yield (ToolCallStarted i (or_empty name))],
           dict_setitem d index
             \<lparr>td_id = i, td_name = or_empty name, td_arguments = []\<rparr>))"

text \<open>
  The branch \<open>if event.arguments_chunk\<close>, taken for a chunk that is present and
  not empty. Reading
  \<open>tool_calls_in_progress[event.index]\<close> raises \<open>KeyError\<close> when the position has
  no entry, before anything is yielded.
\<close>

definition accumulate_arguments ::
  "tool_data pydict \<Rightarrow> int \<Rightarrow> string option
     \<Rightarrow> action list \<times> (error + tool_data pydict)" where
  "accumulate_arguments d index chunk =
     (case chunk of
        None \<Rightarrow> ([], Inr d)
      | Some arguments_chunk \<Rightarrow>
          (if arguments_chunk = [] then ([], Inr d)
           else
             (case dict_getitem d index of
                None \<Rightarrow> ([], Inl (KeyError index))
              | Some t \<Rightarrow>
                  ([Yield (ToolCallArgumentChunk (td_id t) arguments_chunk)],
                   Inr (dict_setitem d index
                          (t\<lparr>td_arguments := td_arguments t @ arguments_chunk\<rparr>))))))"

text \<open>
  The loop \<open>for tool_data in tool_calls_in_progress.values()\<close>. \<open>json.loads\<close> is
  evaluated first, then the \<open>ToolCall\<close> is constructed, then the event is yielded,
  then the executor is awaited. \<open>loads\<close> is \<open>json.loads\<close>: \<open>None\<close> is a
  \<open>JSONDecodeError\<close>.
\<close>

fun resolve_tool_calls ::
  "(string \<Rightarrow> json option) \<Rightarrow> tool_executor \<Rightarrow> tool_data list
     \<Rightarrow> action list \<times> error option" where
  "resolve_tool_calls loads executor [] = ([], None)"
| "resolve_tool_calls loads executor (t # ts) =
     (case loads (td_arguments t) of
        None \<Rightarrow> ([], Some JSONDecodeError)
      | Some arguments \<Rightarrow>
          (case ToolCall_new (td_id t) (td_name t) arguments of
             Inl e \<Rightarrow> ([], Some e)
           | Inr tool_call \<Rightarrow>
               (case executor tool_call of
                  Inl e \<Rightarrow>
                    ([Yield (ToolCallCompleted tool_call), Execute tool_call], Some e)
                | Inr tool_result \<Rightarrow>
                    (case resolve_tool_calls loads executor ts of
                       (rest, status) \<Rightarrow>
                         (Yield (ToolCallCompleted tool_call) # Execute tool_call
                            # Yield (ToolResultAvailable tool_result) # rest,
                          status)))))"

text \<open>One iteration of \<open>async for event in ...\<close>: the new accumulator or an exception.\<close>

fun handle_event ::
  "(string \<Rightarrow> json option) \<Rightarrow> tool_executor \<Rightarrow> tool_data pydict \<Rightarrow> LLMEvent
     \<Rightarrow> action list \<times> (error + tool_data pydict)" where
  "handle_event loads executor d (LLMTextDelta content) =
     ([Yield (TextDelta content)], Inr d)"
| "handle_event loads executor d (LLMToolCallDelta index ident name chunk) =
     (case start_tool_call d index ident name of
        (started, d') \<Rightarrow>
          (case accumulate_arguments d' index chunk of
             (chunks, r) \<Rightarrow> (started @ chunks, r)))"
| "handle_event loads executor d (LLMFinished finish_reason p c) =
     (case (if d \<noteq> [] then resolve_tool_calls loads executor (dict_values d)
            else ([], None)) of
        (resolved, Some e) \<Rightarrow> (resolved, Inl e)
      | (resolved, None) \<Rightarrow>
          (resolved
             @ [Yield (CompletionFinished finish_reason
                        \<lparr>prompt_tokens = p, completion_tokens = c,
                         total_tokens = p + c\<rparr>)],
           Inr d))"

subsection \<open>The loop\<close>

fun execute_loop ::
  "(string \<Rightarrow> json option) \<Rightarrow> tool_executor \<Rightarrow> tool_data pydict \<Rightarrow> LLMEvent list
     \<Rightarrow> action list \<times> (error + tool_data pydict)" where
  "execute_loop loads executor d [] = ([], Inr d)"
| "execute_loop loads executor d (event # events) =
     (case handle_event loads executor d event of
        (out, Inl e) \<Rightarrow> (out, Inl e)
      | (out, Inr d') \<Rightarrow>
          (case execute_loop loads executor d' events of
             (rest, r) \<Rightarrow> (out @ rest, r)))"

text \<open>
  \<open>execute\<close> starts from an empty accumulator. Its outcome is the trace and the
  exception that ended it, if any. The messages and the list of registered
  tools are handed to the provider and are not looked at again; the model
  starts from the events the provider yields.
\<close>

definition execute ::
  "(string \<Rightarrow> json option) \<Rightarrow> tool_executor \<Rightarrow> LLMEvent list
     \<Rightarrow> action list \<times> error option" where
  "execute loads executor events =
     (case execute_loop loads executor [] events of
        (trace, Inl e) \<Rightarrow> (trace, Some e)
      | (trace, Inr d) \<Rightarrow> (trace, None))"

section \<open>Protocol formatter (api/infrastructure/protocol/vercel_stream.py)\<close>

text \<open>
  \<open>format_event\<close> builds each line with an f-string. The fields \<open>id\<close>, \<open>name\<close>,
  \<open>call_id\<close> and \<open>finish_reason\<close> are interpolated as they are; only the
  text content, the arguments and the result go through \<open>json.dumps\<close>.
\<close>

fun format_event :: "(json \<Rightarrow> string) \<Rightarrow> StreamEvent \<Rightarrow> string" where
  \<open>format_event dumps (TextDelta content) =
     ''0:'' @ dumps (JString content) @ [CHR 0x0A]\<close>
| \<open>format_event dumps (ToolCallCompleted tool_call) =
     ''9:{"toolCallId":"'' @ tc_id tool_call
       @ ''","toolName":"'' @ tc_name tool_call
       @ ''","args":'' @ dumps (tc_arguments tool_call) @ ''}'' @ [CHR 0x0A]\<close>
| \<open>format_event dumps (ToolResultAvailable tool_result) =
     ''a:{"toolCallId":"'' @ tr_call_id tool_result
       @ ''","toolName":"'' @ tr_name tool_result
       @ ''","result":'' @ dumps (tr_result tool_result) @ ''}'' @ [CHR 0x0A]\<close>
| \<open>format_event dumps (CompletionFinished finish_reason usage) =
     ''e:{"finishReason":"'' @ finish_reason
       @ ''","usage":{"promptTokens":'' @ str_int (prompt_tokens usage)
       @ '',"completionTokens":'' @ str_int (completion_tokens usage)
       @ ''},"isContinued":false}'' @ [CHR 0x0A]\<close>
| \<open>format_event dumps (ToolCallStarted call_id tool_name) = []\<close>
| \<open>format_event dumps (ToolCallArgumentChunk call_id chunk) = []\<close>

section \<open>Vocabulary of the statements\<close>

text \<open>
  The predicates below classify provider events, yielded events and actions.
  They are used to state the properties; the code does not contain them.
\<close>

text \<open>The terminal event of the provider stream.\<close>

fun is_finished :: "LLMEvent \<Rightarrow> bool" where
  "is_finished (LLMFinished fr p c) = True"
| "is_finished _ = False"

text \<open>The event \<open>CompletionFinished\<close>.\<close>

fun is_completion :: "StreamEvent \<Rightarrow> bool" where
  "is_completion (CompletionFinished fr u) = True"
| "is_completion _ = False"

text \<open>What the loop yields while it reads text and tool-call fragments.\<close>

fun streaming :: "action \<Rightarrow> bool" where
  "streaming (Yield (TextDelta s)) = True"
| "streaming (Yield (ToolCallStarted i n)) = True"
| "streaming (Yield (ToolCallArgumentChunk i c)) = True"
| "streaming _ = False"

text \<open>What the loop over the accumulator does: the two events of a call and the call to the executor between them.\<close>

fun resolution :: "action \<Rightarrow> bool" where
  "resolution (Yield (ToolCallCompleted c)) = True"
| "resolution (Yield (ToolResultAvailable r)) = True"
| "resolution (Execute c) = True"
| "resolution _ = False"

text \<open>A \<open>CompletionFinished\<close> event whose total is the sum of its two counts.\<close>

fun usage_consistent :: "StreamEvent \<Rightarrow> bool" where
  "usage_consistent (CompletionFinished fr u) =
     (total_tokens u = prompt_tokens u + completion_tokens u)"
| "usage_consistent _ = True"



text \<open>The positions of the fragments that carry an id, in arrival order.\<close>

fun started_positions :: "LLMEvent list \<Rightarrow> int list" where
  "started_positions [] = []"
| "started_positions (LLMToolCallDelta index (Some ident) name chunk # events) =
     index # started_positions events"
| "started_positions (event # events) = started_positions events"

text \<open>The order in which keys enter a Python \<open>dict\<close>: each key where it was first seen.\<close>

fun insertion_order :: "'a list \<Rightarrow> 'a list \<Rightarrow> 'a list" where
  "insertion_order seen [] = seen"
| "insertion_order seen (k # ks) =
     insertion_order (if k \<in> set seen then seen else seen @ [k]) ks"

text \<open>The tool calls of the \<open>ToolCallCompleted\<close> events of a sequence.\<close>

fun completed :: "StreamEvent list \<Rightarrow> ToolCall list" where
  "completed [] = []"
| "completed (ToolCallCompleted tool_call # events) = tool_call # completed events"
| "completed (event # events) = completed events"

text \<open>An accumulator entry whose text parses, whose id and name make a \<open>ToolCall\<close>, and on which the executor returns a result.\<close>

definition resolves :: "(string \<Rightarrow> json option) \<Rightarrow> tool_executor \<Rightarrow> tool_data \<Rightarrow> bool" where
  "resolves loads executor t =
     (case loads (td_arguments t) of
        None \<Rightarrow> False
      | Some arguments \<Rightarrow>
          (case ToolCall_new (td_id t) (td_name t) arguments of
             Inl e \<Rightarrow> False
           | Inr tool_call \<Rightarrow>
               (case executor tool_call of Inl e \<Rightarrow> False | Inr r \<Rightarrow> True)))"



section \<open>Concrete streams and tools\<close>

text \<open>
  Inputs on which the code is run below: a registry with one tool, whose schema
  has no required field, so that it answers on every object and fails on
  arguments that cannot be unpacked; and streams in the shape the unit tests of
  the repository use.
\<close>

definition weather :: tool where
  "weather arguments =
     (case arguments of
        JObject kwargs \<Rightarrow> Inr (JObject [(''temp'', JInt 72)])
      | _ \<Rightarrow> Inl (Exception ''argument after ** must be a mapping''))"

definition registry :: "string \<rightharpoonup> tool" where
  "registry = [''get_weather'' \<mapsto> weather]"

definition sf_then_invalid :: "LLMEvent list" where
  \<open>sf_then_invalid =
     [LLMToolCallDelta 0 (Some ''call_1'') (Some ''get_weather'') None,
      LLMToolCallDelta 0 None None (Some ''{"city":"SF"}''),
      LLMToolCallDelta 1 (Some ''call_2'') (Some ''get_weather'') None,
      LLMToolCallDelta 1 None None (Some ''{"invalid":'')]\<close>

definition three_calls :: "LLMEvent list" where
  \<open>three_calls =
     [LLMToolCallDelta 0 (Some ''call_1'') (Some ''get_weather'') None,
      LLMToolCallDelta 0 None None (Some ''{"city":"SF"}''),
      LLMToolCallDelta 1 (Some ''call_2'') (Some ''unknown'') (Some ''{}''),
      LLMToolCallDelta 2 (Some ''call_3'') (Some ''get_weather'') (Some ''{}'')]\<close>


definition restarted :: "LLMEvent list" where
  \<open>restarted =
     [LLMToolCallDelta 0 (Some ''call_1'') (Some ''get_weather'') None,
      LLMToolCallDelta 0 None None (Some ''{"city":''),
      LLMToolCallDelta 1 (Some ''call_2'') (Some ''get_weather'') (Some ''{}''),
      LLMToolCallDelta 0 (Some ''call_9'') (Some ''get_weather'') (Some ''{"city":"SF"}'')]\<close>


section \<open>Lemmas\<close>

subsection \<open>The accumulator\<close>

lemma dict_keys_setitem:
  "dict_keys (dict_setitem d k v) = (if k \<in> set (dict_keys d) then dict_keys d else dict_keys d @ [k])"
  by (induction d) (force simp: dict_keys_def)+

lemma distinct_dict_setitem:
  "distinct (dict_keys d) \<Longrightarrow> distinct (dict_keys (dict_setitem d k v))"
  by (simp add: dict_keys_setitem)


lemma dict_getitem_None:
  "(dict_getitem d k = None) = (k \<notin> set (dict_keys d))"
  by (simp add: dict_getitem_def dict_keys_def map_of_eq_None_iff)

lemma dict_setitem_new:
  "k \<notin> set (dict_keys d) \<Longrightarrow> dict_setitem d k v = d @ [(k, v)]"
  by (induction d) (auto simp: dict_keys_def)

lemma dict_setitem_present:
  "i < length d \<Longrightarrow> dict_keys d ! i = k \<Longrightarrow> distinct (dict_keys d)
   \<Longrightarrow> dict_setitem d k v = d[i := (k, v)]"
proof (induction d arbitrary: i)
  case Nil
  then show ?case by simp
next
  case (Cons a d)
  obtain k' v' where a: "a = (k', v')" by (cases a)
  show ?case
  proof (cases i)
    case 0
    with Cons.prems a show ?thesis by (simp add: dict_keys_def)
  next
    case (Suc j)
    with Cons.prems a have "j < length d" "dict_keys d ! j = k" "distinct (dict_keys d)"
      by (simp_all add: dict_keys_def)
    moreover from this Cons.prems a have "k' \<noteq> k"
      by (auto simp: dict_keys_def dest: nth_mem)
    ultimately show ?thesis using Cons.IH [of j] a Suc by simp
  qed
qed

lemma dict_values_setitem_present:
  "i < length d \<Longrightarrow> dict_keys d ! i = k \<Longrightarrow> distinct (dict_keys d)
   \<Longrightarrow> dict_values (dict_setitem d k v) = (dict_values d)[i := v]"
  by (simp add: dict_setitem_present dict_values_def map_update)


lemma dict_getitem_Some_key:
  "dict_getitem d k = Some v \<Longrightarrow> k \<in> set (dict_keys d)"
  using dict_getitem_None [of d k] by auto

subsection \<open>The loop and the terminal event\<close>

lemma emitted_append: "emitted (xs @ ys) = emitted xs @ emitted ys"
  by (induction xs rule: emitted.induct) simp_all

lemma attempted_append: "attempted (xs @ ys) = attempted xs @ attempted ys"
  by (induction xs rule: attempted.induct) simp_all

lemma resolve_tool_calls_append:
  "resolve_tool_calls L X (pre @ post) =
     (case resolve_tool_calls L X pre of
        (P, Some e) \<Rightarrow> (P, Some e)
      | (P, None) \<Rightarrow>
          (case resolve_tool_calls L X post of (Q, st) \<Rightarrow> (P @ Q, st)))"
  by (induction pre) (auto split: option.splits sum.splits prod.splits)

lemma execute_loop_append:
  "execute_loop L X d (xs @ ys) =
     (case execute_loop L X d xs of
        (t, Inl e) \<Rightarrow> (t, Inl e)
      | (t, Inr d') \<Rightarrow>
          (case execute_loop L X d' ys of (t', r) \<Rightarrow> (t @ t', r)))"
  by (induction xs arbitrary: d) (auto split: sum.splits prod.splits)

lemma handle_finished:
  "handle_event L X d (LLMFinished fr p c) =
     (case resolve_tool_calls L X (dict_values d) of
        (T, Some e) \<Rightarrow> (T, Inl e)
      | (T, None) \<Rightarrow>
          (T @ [Yield (CompletionFinished fr
                  \<lparr>prompt_tokens = p, completion_tokens = c, total_tokens = p + c\<rparr>)],
           Inr d))"
proof -
  have "(if d \<noteq> [] then resolve_tool_calls L X (dict_values d) else ([], None))
          = resolve_tool_calls L X (dict_values d)"
    by (cases d) (simp_all add: dict_values_def del: resolve_tool_calls.simps(2))
  then show ?thesis by (simp del: resolve_tool_calls.simps)
qed

lemma execute_terminal:
  assumes "execute_loop L X [] body = (B, Inr d)"
  shows "execute L X (body @ LLMFinished fr p c # later) =
     (case resolve_tool_calls L X (dict_values d) of
        (T, Some e) \<Rightarrow> (B @ T, Some e)
      | (T, None) \<Rightarrow>
          (case execute_loop L X d later of
             (R, r) \<Rightarrow>
               (B @ T @ Yield (CompletionFinished fr
                    \<lparr>prompt_tokens = p, completion_tokens = c, total_tokens = p + c\<rparr>) # R,
                case r of Inl e \<Rightarrow> Some e | Inr d' \<Rightarrow> None)))"
  using assms
  by (simp add: execute_def execute_loop_append handle_finished
           del: handle_event.simps
           split: prod.splits option.splits sum.splits)

lemma resolution_resolve: "list_all resolution (fst (resolve_tool_calls L X ts))"
  by (induction ts) (auto split: option.splits sum.splits prod.splits)

lemma streaming_handle:
  "\<not> is_finished ev \<Longrightarrow> list_all streaming (fst (handle_event L X d ev))"
  by (cases ev)
     (auto simp: start_tool_call_def accumulate_arguments_def
           split: option.splits prod.splits)

lemma streaming_loop:
  "list_all (\<lambda>e. \<not> is_finished e) evs
   \<Longrightarrow> list_all streaming (fst (execute_loop L X d evs))"
proof (induction evs arbitrary: d)
  case Nil
  then show ?case by simp
next
  case (Cons ev evs)
  from Cons.prems have ev: "list_all streaming (fst (handle_event L X d ev))"
    by (simp add: streaming_handle)
  show ?case
  proof (cases "handle_event L X d ev")
    case (Pair out r)
    with ev have out: "list_all streaming out" by simp
    show ?thesis
    proof (cases r)
      case (Inl e)
      with Pair out show ?thesis by simp
    next
      case (Inr d')
      from Cons.prems have "list_all streaming (fst (execute_loop L X d' evs))"
        by (simp add: Cons.IH)
      with Pair Inr out show ?thesis
        by (cases "execute_loop L X d' evs") (simp del: handle_event.simps)
    qed
  qed
qed

lemma streaming_no_completion:
  "list_all streaming tr \<Longrightarrow> \<not> list_ex is_completion (emitted tr)"
  by (induction tr rule: emitted.induct) (auto elim: streaming.elims)

lemma streaming_attempted: "list_all streaming tr \<Longrightarrow> attempted tr = []"
  by (induction tr rule: attempted.induct) auto

lemma resolution_no_completion:
  "list_all resolution tr \<Longrightarrow> \<not> list_ex is_completion (emitted tr)"
  by (induction tr rule: emitted.induct) (auto elim: resolution.elims)

lemma distinct_handle:
  "distinct (dict_keys d) \<Longrightarrow> handle_event L X d ev = (out, Inr d')
   \<Longrightarrow> distinct (dict_keys d')"
  by (cases ev)
     (auto simp: start_tool_call_def accumulate_arguments_def dict_keys_setitem
           split: option.splits prod.splits if_splits)

lemma distinct_loop:
  "distinct (dict_keys d) \<Longrightarrow> execute_loop L X d evs = (tr, Inr d')
   \<Longrightarrow> distinct (dict_keys d')"
proof (induction evs arbitrary: d tr)
  case Nil
  then show ?case by simp
next
  case (Cons ev evs)
  obtain out r where h: "handle_event L X d ev = (out, r)"
    by (cases "handle_event L X d ev")
  with Cons.prems(2) obtain d1 where r: "r = Inr d1"
    by (cases r) (auto simp del: handle_event.simps)
  obtain rest r' where l: "execute_loop L X d1 evs = (rest, r')"
    by (cases "execute_loop L X d1 evs")
  with Cons.prems(2) h r have "r' = Inr d'" by (simp del: handle_event.simps)
  moreover from Cons.prems(1) h r have "distinct (dict_keys d1)"
    using distinct_handle by blast
  ultimately show ?case using Cons.IH l by blast
qed

lemma distinct_reachable:
  "execute_loop L X [] body = (B, Inr d) \<Longrightarrow> distinct (dict_keys d)"
  using distinct_loop [of "[]" L X body B d] by (simp add: dict_keys_def)

lemma usage_resolve:
  "list_all usage_consistent (emitted (fst (resolve_tool_calls L X ts)))"
  by (induction ts) (auto split: option.splits sum.splits prod.splits)

lemma usage_handle:
  "list_all usage_consistent (emitted (fst (handle_event L X d ev)))"
proof (cases ev)
  case (LLMTextDelta s)
  then show ?thesis by simp
next
  case (LLMToolCallDelta i ident n ch)
  then show ?thesis
    by (auto simp: start_tool_call_def accumulate_arguments_def emitted_append
             split: option.splits prod.splits)
next
  case (LLMFinished fr p c)
  then show ?thesis
    using usage_resolve [of L X "dict_values d"]
    by (cases "resolve_tool_calls L X (dict_values d)")
       (auto simp: handle_finished emitted_append simp del: handle_event.simps
             split: option.splits)
qed

lemma usage_loop:
  "list_all usage_consistent (emitted (fst (execute_loop L X d evs)))"
proof (induction evs arbitrary: d)
  case Nil
  then show ?case by simp
next
  case (Cons ev evs)
  obtain out r where h: "handle_event L X d ev = (out, r)"
    by (cases "handle_event L X d ev")
  with usage_handle [of L X d ev] have out: "list_all usage_consistent (emitted out)"
    by simp
  show ?case
  proof (cases r)
    case (Inl e)
    with h out show ?thesis by (simp del: handle_event.simps)
  next
    case (Inr d')
    obtain rest r' where l: "execute_loop L X d' evs = (rest, r')"
      by (cases "execute_loop L X d' evs")
    with Cons.IH [of d'] have "list_all usage_consistent (emitted rest)" by simp
    with h Inr l out show ?thesis
      by (simp add: emitted_append del: handle_event.simps)
  qed
qed

lemma emitted_map_Yield: "emitted (map Yield es) = es"
  by (induction es) simp_all

lemma completed_append: "completed (xs @ ys) = completed xs @ completed ys"
  by (induction xs rule: completed.induct) simp_all

lemma streaming_completed: "list_all streaming tr \<Longrightarrow> completed (emitted tr) = []"
  by (induction tr rule: emitted.induct) (auto elim: streaming.elims)

lemma ToolCall_new_fields:
  "ToolCall_new i n a = Inr tool_call
   \<Longrightarrow> tc_id tool_call = i \<and> tc_name tool_call = n \<and> tc_arguments tool_call = a"
  by (auto simp: ToolCall_new_def split: if_splits)

lemma chunks_loop:
  "list_all (\<lambda>s. s \<noteq> []) chunks \<Longrightarrow>
   execute_loop L X [(0, t)] (map (\<lambda>s. LLMToolCallDelta 0 None None (Some s)) chunks)
     = (map (\<lambda>s. Yield (ToolCallArgumentChunk (td_id t) s)) chunks,
        Inr [(0, t\<lparr>td_arguments := td_arguments t @ concat chunks\<rparr>)])"
proof (induction chunks arbitrary: t)
  case Nil
  then show ?case by simp
next
  case (Cons s chunks)
  from Cons.prems have s: "s \<noteq> []" and rest: "list_all (\<lambda>s. s \<noteq> []) chunks"
    by simp_all
  from s have step: "handle_event L X [(0, t)] (LLMToolCallDelta 0 None None (Some s))
      = ([Yield (ToolCallArgumentChunk (td_id t) s)],
         Inr [(0, t\<lparr>td_arguments := td_arguments t @ s\<rparr>)])"
    by (simp add: start_tool_call_def accumulate_arguments_def dict_getitem_def)
  show ?case
    using Cons.IH [OF rest, of "t\<lparr>td_arguments := td_arguments t @ s\<rparr>"] step
    by (simp del: handle_event.simps)
qed

lemma keys_accumulate:
  "accumulate_arguments d index chunk = (out, Inr d') \<Longrightarrow> dict_keys d' = dict_keys d"
  by (auto simp: accumulate_arguments_def dict_keys_setitem dict_getitem_Some_key
           split: option.splits if_splits)

lemma keys_handle:
  assumes h: "handle_event L X d ev = (out, Inr d')"
  shows "dict_keys d' = insertion_order (dict_keys d) (started_positions [ev])"
proof (cases ev)
  case (LLMTextDelta s)
  with h show ?thesis by auto
next
  case (LLMFinished fr p c)
  with h show ?thesis
    by (cases "resolve_tool_calls L X (dict_values d)")
       (auto simp: handle_finished simp del: handle_event.simps split: option.splits)
next
  case (LLMToolCallDelta index ident name chunk)
  show ?thesis
  proof (cases ident)
    case None
    with h LLMToolCallDelta show ?thesis
      by (auto simp: start_tool_call_def split: prod.splits dest: keys_accumulate)
  next
    case (Some i)
    with h LLMToolCallDelta show ?thesis
      by (auto simp: start_tool_call_def dict_keys_setitem split: prod.splits
               dest!: keys_accumulate)
  qed
qed

lemma started_positions_Cons:
  "started_positions (ev # evs) = started_positions [ev] @ started_positions evs"
proof (cases ev)
  case (LLMToolCallDelta index ident name chunk)
  then show ?thesis by (cases ident) simp_all
qed simp_all

lemma insertion_order_append:
  "insertion_order seen (xs @ ys) = insertion_order (insertion_order seen xs) ys"
  by (induction xs arbitrary: seen) simp_all

lemma keys_loop:
  "execute_loop L X d evs = (tr, Inr d')
   \<Longrightarrow> dict_keys d' = insertion_order (dict_keys d) (started_positions evs)"
proof (induction evs arbitrary: d tr)
  case Nil
  then show ?case by simp
next
  case (Cons ev evs)
  obtain out r where h: "handle_event L X d ev = (out, r)"
    by (cases "handle_event L X d ev")
  with Cons.prems obtain d1 where r: "r = Inr d1"
    by (cases r) (auto simp del: handle_event.simps)
  obtain rest r' where l: "execute_loop L X d1 evs = (rest, r')"
    by (cases "execute_loop L X d1 evs")
  with Cons.prems h r have "r' = Inr d'" by (simp del: handle_event.simps)
  with l Cons.IH have "dict_keys d' = insertion_order (dict_keys d1) (started_positions evs)"
    by blast
  moreover from h r have "dict_keys d1 = insertion_order (dict_keys d) (started_positions [ev])"
    using keys_handle by blast
  ultimately show ?case
    using started_positions_Cons [of ev evs]
    by (simp add: insertion_order_append del: started_positions.simps)
qed

lemma resolve_all:
  "list_all (resolves L X) ts \<Longrightarrow>
   \<exists>T. resolve_tool_calls L X ts = (T, None)
      \<and> map (\<lambda>c. (tc_id c, tc_name c, Some (tc_arguments c))) (completed (emitted T))
          = map (\<lambda>t. (td_id t, td_name t, L (td_arguments t))) ts"
proof (induction ts)
  case Nil
  then show ?case by simp
next
  case (Cons t ts)
  from Cons.prems have t: "resolves L X t" and ts: "list_all (resolves L X) ts"
    by simp_all
  from t obtain a tool_call r where
    a: "L (td_arguments t) = Some a"
    and c: "ToolCall_new (td_id t) (td_name t) a = Inr tool_call"
    and r: "X tool_call = Inr r"
    by (auto simp: resolves_def split: option.splits sum.splits)
  from Cons.IH [OF ts] obtain T where
    T: "resolve_tool_calls L X ts = (T, None)"
    and m: "map (\<lambda>c. (tc_id c, tc_name c, Some (tc_arguments c))) (completed (emitted T))
          = map (\<lambda>t. (td_id t, td_name t, L (td_arguments t))) ts"
    by blast
  from a c r T have
    "resolve_tool_calls L X (t # ts)
       = (Yield (ToolCallCompleted tool_call) # Execute tool_call
            # Yield (ToolResultAvailable r) # T, None)"
    by simp
  moreover have
    "map (\<lambda>c. (tc_id c, tc_name c, Some (tc_arguments c)))
        (completed (emitted (Yield (ToolCallCompleted tool_call) # Execute tool_call
            # Yield (ToolResultAvailable r) # T)))
     = map (\<lambda>t. (td_id t, td_name t, L (td_arguments t))) (t # ts)"
    using m a ToolCall_new_fields [OF c] by simp
  ultimately show ?case by blast
qed

subsection \<open>Two calls\<close>








subsection \<open>Runs on the concrete streams\<close>

lemma json_loads_city:
  \<open>json_loads ''{"city":"SF"}'' = Some (JObject [(''city'', JString ''SF'')])\<close>
  by code_simp

text \<open>Both rejections are verdicts of the decoder, not the recursion bound.\<close>

lemma json_decode_invalid: \<open>json_decode ''{"invalid":'' = Malformed\<close>
  by code_simp

lemma json_decode_empty: \<open>json_decode [] = Malformed\<close>
  by code_simp

lemma json_loads_invalid: \<open>json_loads ''{"invalid":'' = None\<close>
  by (simp add: json_loads_def json_decode_invalid)

lemma json_loads_empty: \<open>json_loads [] = None\<close>
  by (simp add: json_loads_def json_decode_empty)

lemma json_loads_object: \<open>json_loads ''{}'' = Some (JObject [])\<close>
  by code_simp

lemma sf_then_invalid_loop:
  \<open>execute_loop json_loads X [] sf_then_invalid =
     ([Yield (ToolCallStarted ''call_1'' ''get_weather''),
       Yield (ToolCallArgumentChunk ''call_1'' ''{"city":"SF"}''),
       Yield (ToolCallStarted ''call_2'' ''get_weather''),
       Yield (ToolCallArgumentChunk ''call_2'' ''{"invalid":'')],
      Inr [(0, \<lparr>td_id = ''call_1'', td_name = ''get_weather'',
                td_arguments = ''{"city":"SF"}''\<rparr>),
           (1, \<lparr>td_id = ''call_2'', td_name = ''get_weather'',
                td_arguments = ''{"invalid":''\<rparr>)])\<close>
  by (simp add: sf_then_invalid_def start_tool_call_def accumulate_arguments_def
        or_empty_def dict_getitem_def)

lemma three_calls_loop:
  \<open>execute_loop json_loads X [] three_calls =
     ([Yield (ToolCallStarted ''call_1'' ''get_weather''),
       Yield (ToolCallArgumentChunk ''call_1'' ''{"city":"SF"}''),
       Yield (ToolCallStarted ''call_2'' ''unknown''),
       Yield (ToolCallArgumentChunk ''call_2'' ''{}''),
       Yield (ToolCallStarted ''call_3'' ''get_weather''),
       Yield (ToolCallArgumentChunk ''call_3'' ''{}'')],
      Inr [(0, \<lparr>td_id = ''call_1'', td_name = ''get_weather'',
                td_arguments = ''{"city":"SF"}''\<rparr>),
           (1, \<lparr>td_id = ''call_2'', td_name = ''unknown'', td_arguments = ''{}''\<rparr>),
           (2, \<lparr>td_id = ''call_3'', td_name = ''get_weather'', td_arguments = ''{}''\<rparr>)])\<close>
  by (simp add: three_calls_def start_tool_call_def accumulate_arguments_def
        or_empty_def dict_getitem_def)


lemma resolve_sf:
  \<open>resolve_tool_calls json_loads (ToolExecutor_execute registry)
      [\<lparr>td_id = ''call_1'', td_name = ''get_weather'', td_arguments = ''{"city":"SF"}''\<rparr>] =
     ([Yield (ToolCallCompleted \<lparr>tc_id = ''call_1'', tc_name = ''get_weather'',
                 tc_arguments = JObject [(''city'', JString ''SF'')]\<rparr>),
        Execute \<lparr>tc_id = ''call_1'', tc_name = ''get_weather'',
                 tc_arguments = JObject [(''city'', JString ''SF'')]\<rparr>,
        Yield (ToolResultAvailable \<lparr>tr_call_id = ''call_1'', tr_name = ''get_weather'',
                 tr_result = JObject [(''temp'', JInt 72)]\<rparr>)], None)\<close>
  by (simp add: json_loads_city ToolCall_new_def ToolExecutor_execute_def registry_def weather_def
        ToolResult_new_def)

lemma restarted_loop:
  \<open>execute_loop L X [] restarted =
     ([Yield (ToolCallStarted ''call_1'' ''get_weather''),
       Yield (ToolCallArgumentChunk ''call_1'' ''{"city":''),
       Yield (ToolCallStarted ''call_2'' ''get_weather''),
       Yield (ToolCallArgumentChunk ''call_2'' ''{}''),
       Yield (ToolCallStarted ''call_9'' ''get_weather''),
       Yield (ToolCallArgumentChunk ''call_9'' ''{"city":"SF"}'')],
      Inr [(0, \<lparr>td_id = ''call_9'', td_name = ''get_weather'',
                td_arguments = ''{"city":"SF"}''\<rparr>),
           (1, \<lparr>td_id = ''call_2'', td_name = ''get_weather'', td_arguments = ''{}''\<rparr>)])\<close>
  by (simp add: restarted_def start_tool_call_def accumulate_arguments_def
        or_empty_def dict_getitem_def)

section \<open>Entity construction\<close>

text \<open>
  C9. The \<open>UsageStats\<close> type does not enforce \<open>total_tokens = prompt_tokens +
  completion_tokens\<close>: for all integers \<open>p\<close>, \<open>c\<close>, \<open>t\<close> the construction
  succeeds and stores \<open>t\<close> as given, so the instance satisfies the relation exactly
  when the caller passed \<open>t = p + c\<close>.
\<close>

theorem UsageStats_new_unchecked:
  "\<exists>u. UsageStats_new p c t = Inr u
       \<and> prompt_tokens u = p \<and> completion_tokens u = c \<and> total_tokens u = t
       \<and> ((total_tokens u = prompt_tokens u + completion_tokens u) = (t = p + c))"
  by (simp add: UsageStats_new_def)

theorem UsageStats_new_unchecked_witness:
  "\<exists>u. UsageStats_new 10 5 99 = Inr u
       \<and> total_tokens u = 99 \<and> total_tokens u \<noteq> prompt_tokens u + completion_tokens u"
  using UsageStats_new_unchecked [of 10 5 99] by auto

text \<open>
  C10. Constructing a \<open>ToolResult\<close> raises if and only if \<open>call_id\<close> is empty; in
  particular an empty tool name is accepted. Constructing a \<open>ToolCall\<close> raises if
  and only if the id or the name is empty.
\<close>

theorem ToolResult_new_raises_iff:
  "((\<exists>e. ToolResult_new c n r = Inl e) = (c = []))
   \<and> ((\<exists>e. ToolCall_new i m a = Inl e) = (i = [] \<or> m = []))
   \<and> (ToolResult_new (x # xs) [] r
        = Inr \<lparr>tr_call_id = x # xs, tr_name = [], tr_result = r\<rparr>)"
  by (simp add: ToolResult_new_def ToolCall_new_def)

theorem ToolResult_new_raises_iff_witness:
  "ToolResult_new ''call_1'' '''' JNull
     = Inr \<lparr>tr_call_id = ''call_1'', tr_name = '''', tr_result = JNull\<rparr>
   \<and> (\<exists>e. ToolCall_new ''call_1'' '''' JNull = Inl e)
   \<and> (\<exists>e. ToolResult_new '''' ''t'' JNull = Inl e)"
proof -
  note h = ToolResult_new_raises_iff [of "''''" "''t''" JNull "''call_1''" "''''" JNull
      "CHR ''c''" "''all_1''"]
  from h have "\<exists>e. ToolCall_new ''call_1'' '''' JNull = Inl e" by simp
  moreover from h have "\<exists>e. ToolResult_new '''' ''t'' JNull = Inl e" by simp
  moreover from h have "ToolResult_new ''call_1'' '''' JNull
     = Inr \<lparr>tr_call_id = ''call_1'', tr_name = '''', tr_result = JNull\<rparr>" by simp
  ultimately show ?thesis by simp
qed

section \<open>Failures during the terminal event\<close>

text \<open>
  C4. Let the accumulator at the first terminal event hold an entry whose
  argument text does not parse. Then the run ends with an exception, the trace
  consists of what was yielded before the terminal event followed by the
  resolution of the entries in front of that entry only, and no
  \<open>CompletionFinished\<close> is yielded, whatever the provider sends afterwards. When
  the entries in front all resolve, the exception is the \<open>JSONDecodeError\<close> of
  that entry.
\<close>

theorem malformed_arguments_abort:
  assumes body: "execute_loop L X [] body = (B, Inr d)"
    and first: "list_all (\<lambda>e. \<not> is_finished e) body"
    and entry: "dict_values d = pre @ t # post"
    and bad: "L (td_arguments t) = None"
  shows "execute L X (body @ LLMFinished fr p c # later)
           = (B @ fst (resolve_tool_calls L X pre),
              Some (case snd (resolve_tool_calls L X pre) of
                      None \<Rightarrow> JSONDecodeError | Some e \<Rightarrow> e))
         \<and> \<not> list_ex is_completion (emitted (fst (execute L X (body @ LLMFinished fr p c # later))))"
proof -
  obtain P st where pre: "resolve_tool_calls L X pre = (P, st)"
    by (cases "resolve_tool_calls L X pre")
  from bad have t: "resolve_tool_calls L X (t # post) = ([], Some JSONDecodeError)"
    by simp
  have all: "resolve_tool_calls L X (dict_values d)
               = (P, Some (case st of None \<Rightarrow> JSONDecodeError | Some e \<Rightarrow> e))"
    unfolding entry resolve_tool_calls_append pre t
    by (cases st) simp_all
  have run: "execute L X (body @ LLMFinished fr p c # later)
               = (B @ P, Some (case st of None \<Rightarrow> JSONDecodeError | Some e \<Rightarrow> e))"
    unfolding execute_terminal [OF body] all by simp
  have "list_all streaming B"
    using streaming_loop [OF first, of L X "[]"] body by simp
  moreover have "list_all resolution P"
    using resolution_resolve [of L X pre] pre by simp
  ultimately have "\<not> list_ex is_completion (emitted (B @ P))"
    by (simp add: emitted_append streaming_no_completion resolution_no_completion)
  with run pre show ?thesis by simp
qed

theorem malformed_arguments_abort_witness:
  \<open>execute json_loads (ToolExecutor_execute registry)
      (sf_then_invalid @ [LLMFinished ''tool_calls'' 20 0])
    = ([Yield (ToolCallStarted ''call_1'' ''get_weather''),
        Yield (ToolCallArgumentChunk ''call_1'' ''{"city":"SF"}''),
        Yield (ToolCallStarted ''call_2'' ''get_weather''),
        Yield (ToolCallArgumentChunk ''call_2'' ''{"invalid":''),
        Yield (ToolCallCompleted \<lparr>tc_id = ''call_1'', tc_name = ''get_weather'',
                 tc_arguments = JObject [(''city'', JString ''SF'')]\<rparr>),
        Execute \<lparr>tc_id = ''call_1'', tc_name = ''get_weather'',
                 tc_arguments = JObject [(''city'', JString ''SF'')]\<rparr>,
        Yield (ToolResultAvailable \<lparr>tr_call_id = ''call_1'', tr_name = ''get_weather'',
                 tr_result = JObject [(''temp'', JInt 72)]\<rparr>)],
       Some JSONDecodeError)\<close>
proof -
  let ?X = "ToolExecutor_execute registry"
  let ?t0 = \<open>\<lparr>td_id = ''call_1'', td_name = ''get_weather'', td_arguments = ''{"city":"SF"}''\<rparr>\<close>
  let ?t1 = \<open>\<lparr>td_id = ''call_2'', td_name = ''get_weather'', td_arguments = ''{"invalid":''\<rparr>\<close>
  have first: "list_all (\<lambda>e. \<not> is_finished e) sf_then_invalid"
    by (simp add: sf_then_invalid_def)
  have entry: "dict_values [(0, ?t0), (1, ?t1)] = [?t0] @ ?t1 # []"
    by (simp add: dict_values_def)
  have bad: "json_loads (td_arguments ?t1) = None"
    by (simp add: json_loads_invalid)
  have pre: \<open>resolve_tool_calls json_loads ?X [?t0] =
     ([Yield (ToolCallCompleted \<lparr>tc_id = ''call_1'', tc_name = ''get_weather'',
                 tc_arguments = JObject [(''city'', JString ''SF'')]\<rparr>),
        Execute \<lparr>tc_id = ''call_1'', tc_name = ''get_weather'',
                 tc_arguments = JObject [(''city'', JString ''SF'')]\<rparr>,
        Yield (ToolResultAvailable \<lparr>tr_call_id = ''call_1'', tr_name = ''get_weather'',
                 tr_result = JObject [(''temp'', JInt 72)]\<rparr>)], None)\<close>
    by (simp add: json_loads_city ToolCall_new_def ToolExecutor_execute_def registry_def weather_def
          ToolResult_new_def)
  from malformed_arguments_abort [OF sf_then_invalid_loop [of ?X] first entry bad,
      where fr = "''tool_calls''" and p = 20 and c = 0 and later = "[]"]
  show ?thesis by (simp add: pre del: resolve_tool_calls.simps)
qed

text \<open>
  C5. Let the entries in front of an entry resolve, let the entry parse into a
  tool call, and let the executor fail on that call. Then the run ends with the
  executor's exception right after the \<open>ToolCallCompleted\<close> of that call and
  the call to the executor: no result event for it, no attempt on a later
  entry, no \<open>CompletionFinished\<close>.
\<close>

theorem executor_failure_abort:
  assumes body: "execute_loop L X [] body = (B, Inr d)"
    and first: "list_all (\<lambda>e. \<not> is_finished e) body"
    and entry: "dict_values d = pre @ t # post"
    and earlier: "resolve_tool_calls L X pre = (P, None)"
    and parsed: "L (td_arguments t) = Some a"
    and built: "ToolCall_new (td_id t) (td_name t) a = Inr tool_call"
    and fails: "X tool_call = Inl e"
  shows "execute L X (body @ LLMFinished fr p c # later)
           = (B @ P @ [Yield (ToolCallCompleted tool_call), Execute tool_call], Some e)
         \<and> attempted (fst (execute L X (body @ LLMFinished fr p c # later)))
             = attempted P @ [tool_call]
         \<and> \<not> list_ex is_completion (emitted (fst (execute L X (body @ LLMFinished fr p c # later))))"
proof -
  from parsed built fails
  have t: "resolve_tool_calls L X (t # post)
             = ([Yield (ToolCallCompleted tool_call), Execute tool_call], Some e)"
    by simp
  have all: "resolve_tool_calls L X (dict_values d)
               = (P @ [Yield (ToolCallCompleted tool_call), Execute tool_call], Some e)"
    unfolding entry resolve_tool_calls_append earlier t by simp
  have run: "execute L X (body @ LLMFinished fr p c # later)
               = (B @ P @ [Yield (ToolCallCompleted tool_call), Execute tool_call], Some e)"
    unfolding execute_terminal [OF body] all by simp
  have B: "list_all streaming B"
    using streaming_loop [OF first, of L X "[]"] body by simp
  have P: "list_all resolution P"
    using resolution_resolve [of L X pre] earlier by simp
  have "attempted (B @ P @ [Yield (ToolCallCompleted tool_call), Execute tool_call])
          = attempted P @ [tool_call]"
    using B by (simp add: attempted_append streaming_attempted)
  moreover have "\<not> list_ex is_completion
                     (emitted (B @ P @ [Yield (ToolCallCompleted tool_call), Execute tool_call]))"
    using B P by (simp add: emitted_append streaming_no_completion resolution_no_completion)
  ultimately show ?thesis using run by simp
qed

theorem executor_failure_abort_witness:
  \<open>execute json_loads (ToolExecutor_execute registry)
      (three_calls @ [LLMFinished ''tool_calls'' 20 0])
    = ([Yield (ToolCallStarted ''call_1'' ''get_weather''),
        Yield (ToolCallArgumentChunk ''call_1'' ''{"city":"SF"}''),
        Yield (ToolCallStarted ''call_2'' ''unknown''),
        Yield (ToolCallArgumentChunk ''call_2'' ''{}''),
        Yield (ToolCallStarted ''call_3'' ''get_weather''),
        Yield (ToolCallArgumentChunk ''call_3'' ''{}''),
        Yield (ToolCallCompleted \<lparr>tc_id = ''call_1'', tc_name = ''get_weather'',
                 tc_arguments = JObject [(''city'', JString ''SF'')]\<rparr>),
        Execute \<lparr>tc_id = ''call_1'', tc_name = ''get_weather'',
                 tc_arguments = JObject [(''city'', JString ''SF'')]\<rparr>,
        Yield (ToolResultAvailable \<lparr>tr_call_id = ''call_1'', tr_name = ''get_weather'',
                 tr_result = JObject [(''temp'', JInt 72)]\<rparr>),
        Yield (ToolCallCompleted \<lparr>tc_id = ''call_2'', tc_name = ''unknown'',
                 tc_arguments = JObject []\<rparr>),
        Execute \<lparr>tc_id = ''call_2'', tc_name = ''unknown'', tc_arguments = JObject []\<rparr>],
       Some (ToolNotFoundError ''unknown''))
   \<and> attempted (fst (execute json_loads (ToolExecutor_execute registry)
                        (three_calls @ [LLMFinished ''tool_calls'' 20 0])))
       = [\<lparr>tc_id = ''call_1'', tc_name = ''get_weather'',
              tc_arguments = JObject [(''city'', JString ''SF'')]\<rparr>,
          \<lparr>tc_id = ''call_2'', tc_name = ''unknown'', tc_arguments = JObject []\<rparr>]\<close>
proof -
  let ?X = "ToolExecutor_execute registry"
  let ?t0 = \<open>\<lparr>td_id = ''call_1'', td_name = ''get_weather'', td_arguments = ''{"city":"SF"}''\<rparr>\<close>
  let ?t1 = \<open>\<lparr>td_id = ''call_2'', td_name = ''unknown'', td_arguments = ''{}''\<rparr>\<close>
  let ?t2 = \<open>\<lparr>td_id = ''call_3'', td_name = ''get_weather'', td_arguments = ''{}''\<rparr>\<close>
  let ?c1 = \<open>\<lparr>tc_id = ''call_2'', tc_name = ''unknown'', tc_arguments = JObject []\<rparr>\<close>
  have first: "list_all (\<lambda>e. \<not> is_finished e) three_calls"
    by (simp add: three_calls_def)
  have entry: "dict_values [(0, ?t0), (1, ?t1), (2, ?t2)] = [?t0] @ ?t1 # [?t2]"
    by (simp add: dict_values_def)
  have parsed: "json_loads (td_arguments ?t1) = Some (JObject [])"
    by (simp add: json_loads_object)
  have built: "ToolCall_new (td_id ?t1) (td_name ?t1) (JObject []) = Inr ?c1"
    by (simp add: ToolCall_new_def)
  have fails: "?X ?c1 = Inl (ToolNotFoundError ''unknown'')"
    by (simp add: ToolExecutor_execute_def registry_def)
  from executor_failure_abort [OF three_calls_loop [of ?X] first entry resolve_sf parsed
      built fails, where fr = "''tool_calls''" and p = 20 and c = 0 and later = "[]"]
  show ?thesis by simp
qed

section \<open>Usage statistics\<close>

text \<open>
  C6. Every \<open>CompletionFinished\<close> that a run yields carries a total equal to the
  sum of its prompt and completion counts, and a run that ends normally on the
  terminal event \<open>LLMFinished fr p c\<close> ends with
  \<open>CompletionFinished fr\<close> carrying \<open>p\<close>, \<open>c\<close> and \<open>p + c\<close>. The terminal
  event has no field from which another total could be taken.
\<close>

theorem usage_total_computed:
  "list_all usage_consistent (emitted (fst (execute L X events)))
   \<and> (snd (execute L X (body @ [LLMFinished fr p c])) = None \<longrightarrow>
        (\<exists>tr. fst (execute L X (body @ [LLMFinished fr p c]))
                = tr @ [Yield (CompletionFinished fr
                          \<lparr>prompt_tokens = p, completion_tokens = c,
                           total_tokens = p + c\<rparr>)]))"
proof
  show "list_all usage_consistent (emitted (fst (execute L X events)))"
    using usage_loop [of L X "[]" events]
    by (cases "execute_loop L X [] events")
       (auto simp: execute_def split: sum.splits)
next
  show "snd (execute L X (body @ [LLMFinished fr p c])) = None \<longrightarrow>
        (\<exists>tr. fst (execute L X (body @ [LLMFinished fr p c]))
                = tr @ [Yield (CompletionFinished fr
                          \<lparr>prompt_tokens = p, completion_tokens = c,
                           total_tokens = p + c\<rparr>)])"
  proof (cases "execute_loop L X [] body")
    case (Pair B r)
    show ?thesis
    proof (cases r)
      case (Inl e)
      with Pair show ?thesis
        by (simp add: execute_def execute_loop_append)
    next
      case (Inr d)
      with Pair have b: "execute_loop L X [] body = (B, Inr d)" by simp
      show ?thesis
        unfolding execute_terminal [OF b]
        by (cases "resolve_tool_calls L X (dict_values d)")
           (auto split: option.splits)
    qed
  qed
qed

theorem usage_total_computed_witness:
  "list_all usage_consistent
     (emitted (fst (execute json_loads (ToolExecutor_execute Map.empty)
        ([LLMTextDelta ''Hello'', LLMTextDelta '' world''] @ [LLMFinished ''stop'' 10 5]))))
   \<and> (\<exists>tr. fst (execute json_loads (ToolExecutor_execute Map.empty)
               ([LLMTextDelta ''Hello'', LLMTextDelta '' world''] @ [LLMFinished ''stop'' 10 5]))
            = tr @ [Yield (CompletionFinished ''stop''
                      \<lparr>prompt_tokens = 10, completion_tokens = 5, total_tokens = 15\<rparr>)])"
proof -
  have ok: "snd (execute json_loads (ToolExecutor_execute Map.empty)
               ([LLMTextDelta ''Hello'', LLMTextDelta '' world''] @ [LLMFinished ''stop'' 10 5]))
            = None"
    by (simp add: execute_def)
  from usage_total_computed [of json_loads "ToolExecutor_execute Map.empty"
      "[LLMTextDelta ''Hello'', LLMTextDelta '' world''] @ [LLMFinished ''stop'' 10 5]"
      "[LLMTextDelta ''Hello'', LLMTextDelta '' world'']" "''stop''" 10 5] ok
  show ?thesis by simp
qed

section \<open>A second start fragment for a position\<close>



section \<open>Tool calls that succeed\<close>

text \<open>
  C1, as amended. The stream is a start fragment at position 0 with id
  \<open>call_1\<close> and a name, then fragments with non-empty argument chunks for
  position 0, then the terminal event. Provided the name is not empty, the
  concatenation of the chunks parses, and the tool of that name is registered
  and returns a result on the parsed arguments, the events yielded are exactly
  \<open>ToolCallStarted\<close>, one \<open>ToolCallArgumentChunk\<close> per chunk in order,
  \<open>ToolCallCompleted\<close> with the parsed arguments, \<open>ToolResultAvailable\<close> with
  call id \<open>call_1\<close>, and one \<open>CompletionFinished\<close>; the executor is called once,
  between \<open>ToolCallCompleted\<close> and \<open>ToolResultAvailable\<close>.
\<close>

theorem single_tool_call_sequence:
  assumes chunks: "list_all (\<lambda>s. s \<noteq> []) chunks"
    and name: "name \<noteq> []"
    and parse: "L (concat chunks) = Some arguments"
    and registered: "tools name = Some tool"
    and runs: "tool arguments = Inr result"
  shows "execute L (ToolExecutor_execute tools)
           (LLMToolCallDelta 0 (Some ''call_1'') (Some name) None
              # map (\<lambda>s. LLMToolCallDelta 0 None None (Some s)) chunks
              @ [LLMFinished fr p c])
         = (Yield (ToolCallStarted ''call_1'' name)
              # map (\<lambda>s. Yield (ToolCallArgumentChunk ''call_1'' s)) chunks
              @ [Yield (ToolCallCompleted
                          \<lparr>tc_id = ''call_1'', tc_name = name, tc_arguments = arguments\<rparr>),
                 Execute \<lparr>tc_id = ''call_1'', tc_name = name, tc_arguments = arguments\<rparr>,
                 Yield (ToolResultAvailable
                          \<lparr>tr_call_id = ''call_1'', tr_name = name, tr_result = result\<rparr>),
                 Yield (CompletionFinished fr
                          \<lparr>prompt_tokens = p, completion_tokens = c,
                           total_tokens = p + c\<rparr>)],
            None)
       \<and> emitted (fst (execute L (ToolExecutor_execute tools)
           (LLMToolCallDelta 0 (Some ''call_1'') (Some name) None
              # map (\<lambda>s. LLMToolCallDelta 0 None None (Some s)) chunks
              @ [LLMFinished fr p c])))
         = ToolCallStarted ''call_1'' name
              # map (ToolCallArgumentChunk ''call_1'') chunks
              @ [ToolCallCompleted
                   \<lparr>tc_id = ''call_1'', tc_name = name, tc_arguments = arguments\<rparr>,
                 ToolResultAvailable
                   \<lparr>tr_call_id = ''call_1'', tr_name = name, tr_result = result\<rparr>,
                 CompletionFinished fr
                   \<lparr>prompt_tokens = p, completion_tokens = c, total_tokens = p + c\<rparr>]"
proof -
  let ?X = "ToolExecutor_execute tools"
  let ?t = "\<lparr>td_id = ''call_1'', td_name = name, td_arguments = []\<rparr>"
  let ?start = "LLMToolCallDelta 0 (Some ''call_1'') (Some name) None"
  let ?frags = "map (\<lambda>s. LLMToolCallDelta 0 None None (Some s)) chunks"
  let ?call = "\<lparr>tc_id = ''call_1'', tc_name = name, tc_arguments = arguments\<rparr>"
  let ?res = "\<lparr>tr_call_id = ''call_1'', tr_name = name, tr_result = result\<rparr>"
  have start: "handle_event L ?X [] ?start
                 = ([Yield (ToolCallStarted ''call_1'' name)], Inr [(0, ?t)])"
    by (simp add: start_tool_call_def accumulate_arguments_def or_empty_def)
  have body: "execute_loop L ?X [] (?start # ?frags)
      = (Yield (ToolCallStarted ''call_1'' name)
           # map (\<lambda>s. Yield (ToolCallArgumentChunk ''call_1'' s)) chunks,
         Inr [(0, \<lparr>td_id = ''call_1'', td_name = name, td_arguments = concat chunks\<rparr>)])"
    using start chunks_loop [OF chunks, of L ?X ?t]
    by (simp del: handle_event.simps)
  have exec: "?X ?call = Inr ?res"
    using registered runs by (simp add: ToolExecutor_execute_def ToolResult_new_def)
  have res: "resolve_tool_calls L ?X
               [\<lparr>td_id = ''call_1'', td_name = name, td_arguments = concat chunks\<rparr>]
             = ([Yield (ToolCallCompleted ?call), Execute ?call,
                 Yield (ToolResultAvailable ?res)], None)"
    using parse name exec by (simp add: ToolCall_new_def)
  have run: "execute L ?X ((?start # ?frags) @ LLMFinished fr p c # [])
         = (Yield (ToolCallStarted ''call_1'' name)
              # map (\<lambda>s. Yield (ToolCallArgumentChunk ''call_1'' s)) chunks
              @ [Yield (ToolCallCompleted ?call), Execute ?call,
                 Yield (ToolResultAvailable ?res),
                 Yield (CompletionFinished fr
                          \<lparr>prompt_tokens = p, completion_tokens = c,
                           total_tokens = p + c\<rparr>)],
            None)"
    unfolding execute_terminal [OF body]
    using res by (simp add: dict_values_def del: resolve_tool_calls.simps)
  have "emitted (map (\<lambda>s. Yield (ToolCallArgumentChunk ''call_1'' s)) chunks)
          = map (ToolCallArgumentChunk ''call_1'') chunks"
    using emitted_map_Yield [of "map (ToolCallArgumentChunk ''call_1'') chunks"]
    by (simp add: comp_def)
  with run show ?thesis by (simp add: emitted_append)
qed

theorem single_tool_call_sequence_witness:
  \<open>emitted (fst (execute json_loads (ToolExecutor_execute registry)
           (LLMToolCallDelta 0 (Some ''call_1'') (Some ''get_weather'') None
              # map (\<lambda>s. LLMToolCallDelta 0 None None (Some s)) [''{"city":'', ''"SF"}'']
              @ [LLMFinished ''tool_calls'' 15 0])))
     = [ToolCallStarted ''call_1'' ''get_weather'',
        ToolCallArgumentChunk ''call_1'' ''{"city":'',
        ToolCallArgumentChunk ''call_1'' ''"SF"}'',
        ToolCallCompleted \<lparr>tc_id = ''call_1'', tc_name = ''get_weather'',
           tc_arguments = JObject [(''city'', JString ''SF'')]\<rparr>,
        ToolResultAvailable \<lparr>tr_call_id = ''call_1'', tr_name = ''get_weather'',
           tr_result = JObject [(''temp'', JInt 72)]\<rparr>,
        CompletionFinished ''tool_calls''
           \<lparr>prompt_tokens = 15, completion_tokens = 0, total_tokens = 15\<rparr>]\<close>
proof -
  have chunks: \<open>list_all (\<lambda>s. s \<noteq> []) [''{"city":'', ''"SF"}'']\<close> by simp
  have name: "''get_weather'' \<noteq> []" by simp
  have parse: \<open>json_loads (concat [''{"city":'', ''"SF"}''])
                 = Some (JObject [(''city'', JString ''SF'')])\<close>
    using json_loads_city by simp
  have registered: "registry ''get_weather'' = Some weather"
    by (simp add: registry_def)
  have runs: "weather (JObject [(''city'', JString ''SF'')]) = Inr (JObject [(''temp'', JInt 72)])"
    by (simp add: weather_def)
  from single_tool_call_sequence [where L = json_loads and tools = registry
      and tool = weather and fr = "''tool_calls''" and p = 15 and c = 0,
      OF chunks name parse registered runs]
  show ?thesis by simp
qed

text \<open>
  C1, as stated, fails. Without the provisos the sequence is cut short: a chunk
  that leaves the text malformed ends the run before \<open>ToolCallCompleted\<close>, a
  tool that is not registered ends it before \<open>ToolResultAvailable\<close>.
\<close>

theorem single_tool_call_counterexample:
  \<open>execute json_loads (ToolExecutor_execute registry)
      [LLMToolCallDelta 0 (Some ''call_1'') (Some ''get_weather'') None,
       LLMToolCallDelta 0 None None (Some ''{"invalid":''),
       LLMFinished ''tool_calls'' 5 0]
    = ([Yield (ToolCallStarted ''call_1'' ''get_weather''),
        Yield (ToolCallArgumentChunk ''call_1'' ''{"invalid":'')],
       Some JSONDecodeError)
   \<and> execute json_loads (ToolExecutor_execute registry)
      [LLMToolCallDelta 0 (Some ''call_1'') (Some ''unknown'') None,
       LLMToolCallDelta 0 None None (Some ''{}''),
       LLMFinished ''tool_calls'' 5 0]
    = ([Yield (ToolCallStarted ''call_1'' ''unknown''),
        Yield (ToolCallArgumentChunk ''call_1'' ''{}''),
        Yield (ToolCallCompleted
                 \<lparr>tc_id = ''call_1'', tc_name = ''unknown'', tc_arguments = JObject []\<rparr>),
        Execute \<lparr>tc_id = ''call_1'', tc_name = ''unknown'', tc_arguments = JObject []\<rparr>],
       Some (ToolNotFoundError ''unknown''))\<close>
  by (simp add: execute_def start_tool_call_def accumulate_arguments_def or_empty_def
        dict_getitem_def dict_values_def json_loads_invalid json_loads_object
        ToolCall_new_def ToolExecutor_execute_def registry_def)

text \<open>
  C3, as amended. Let the stream before the first terminal event run into the
  accumulator \<open>d\<close>, and let every entry of \<open>d\<close> resolve. Then the run ends
  normally; no \<open>ToolCallCompleted\<close> is yielded before the terminal event; after
  it there is exactly one per entry, in the order of the entries, carrying the
  id, the name and the parsed text of its entry; and the keys of \<open>d\<close> are the
  positions that received a start fragment, each once, in the order of their
  first start.
\<close>

theorem completed_once_per_started_position:
  assumes body: "execute_loop L X [] body = (B, Inr d)"
    and first: "list_all (\<lambda>e. \<not> is_finished e) body"
    and ok: "list_all (resolves L X) (dict_values d)"
  shows "\<exists>T. execute L X (body @ [LLMFinished fr p c])
               = (B @ T @ [Yield (CompletionFinished fr
                    \<lparr>prompt_tokens = p, completion_tokens = c, total_tokens = p + c\<rparr>)],
                  None)
            \<and> completed (emitted B) = []
            \<and> map (\<lambda>c. (tc_id c, tc_name c, Some (tc_arguments c))) (completed (emitted T))
                = map (\<lambda>t. (td_id t, td_name t, L (td_arguments t))) (dict_values d)
            \<and> dict_keys d = insertion_order [] (started_positions body)
            \<and> distinct (dict_keys d)
            \<and> length (completed (emitted T)) = length (dict_keys d)"
proof -
  from resolve_all [OF ok] obtain T where
    T: "resolve_tool_calls L X (dict_values d) = (T, None)"
    and m: "map (\<lambda>c. (tc_id c, tc_name c, Some (tc_arguments c))) (completed (emitted T))
          = map (\<lambda>t. (td_id t, td_name t, L (td_arguments t))) (dict_values d)"
    by blast
  have run: "execute L X (body @ [LLMFinished fr p c])
               = (B @ T @ [Yield (CompletionFinished fr
                    \<lparr>prompt_tokens = p, completion_tokens = c, total_tokens = p + c\<rparr>)],
                  None)"
    unfolding execute_terminal [OF body] T by simp
  have "list_all streaming B"
    using streaming_loop [OF first, of L X "[]"] body by simp
  then have B: "completed (emitted B) = []" by (rule streaming_completed)
  have keys: "dict_keys d = insertion_order [] (started_positions body)"
    using keys_loop [OF body] by (simp add: dict_keys_def)
  have dist: "distinct (dict_keys d)" by (rule distinct_reachable [OF body])
  have "length (map (\<lambda>c. (tc_id c, tc_name c, Some (tc_arguments c))) (completed (emitted T)))
          = length (map (\<lambda>t. (td_id t, td_name t, L (td_arguments t))) (dict_values d))"
    by (simp only: m)
  then have "length (completed (emitted T)) = length (dict_values d)"
    by simp
  then have len: "length (completed (emitted T)) = length (dict_keys d)"
    by (simp add: dict_values_def dict_keys_def)
  show ?thesis
    by (rule exI [of _ T]) (intro conjI run B m keys dist len)
qed

theorem completed_once_per_started_position_witness:
  \<open>\<exists>T. execute json_loads (ToolExecutor_execute registry)
          (restarted @ [LLMFinished ''tool_calls'' 20 0])
        = ([Yield (ToolCallStarted ''call_1'' ''get_weather''),
            Yield (ToolCallArgumentChunk ''call_1'' ''{"city":''),
            Yield (ToolCallStarted ''call_2'' ''get_weather''),
            Yield (ToolCallArgumentChunk ''call_2'' ''{}''),
            Yield (ToolCallStarted ''call_9'' ''get_weather''),
            Yield (ToolCallArgumentChunk ''call_9'' ''{"city":"SF"}'')]
           @ T @ [Yield (CompletionFinished ''tool_calls''
                    \<lparr>prompt_tokens = 20, completion_tokens = 0, total_tokens = 20\<rparr>)],
           None)
      \<and> map (\<lambda>c. (tc_id c, tc_name c, Some (tc_arguments c))) (completed (emitted T))
          = [(''call_9'', ''get_weather'', Some (JObject [(''city'', JString ''SF'')])),
             (''call_2'', ''get_weather'', Some (JObject []))]
      \<and> insertion_order [] (started_positions restarted) = [0, 1]\<close>
proof -
  let ?X = "ToolExecutor_execute registry"
  let ?t0 = \<open>\<lparr>td_id = ''call_9'', td_name = ''get_weather'', td_arguments = ''{"city":"SF"}''\<rparr>\<close>
  let ?t1 = \<open>\<lparr>td_id = ''call_2'', td_name = ''get_weather'', td_arguments = ''{}''\<rparr>\<close>
  have first: "list_all (\<lambda>e. \<not> is_finished e) restarted"
    by (simp add: restarted_def)
  have ok: "list_all (resolves json_loads ?X) (dict_values [(0, ?t0), (1, ?t1)])"
    by (simp add: dict_values_def resolves_def json_loads_city json_loads_object
          ToolCall_new_def ToolExecutor_execute_def registry_def weather_def
          ToolResult_new_def)
  from completed_once_per_started_position [OF restarted_loop [of json_loads ?X] first ok,
      where fr = "''tool_calls''" and p = 20 and c = 0]
  show ?thesis
    by (auto simp add: dict_values_def dict_keys_def json_loads_city json_loads_object)
qed

text \<open>
  C3, as stated, fails. A call that was started and received no argument chunk
  does not resolve: its text is empty and \<open>json.loads\<close> rejects it. A call
  behind one on which the executor fails is never completed.
\<close>

theorem completed_once_per_started_position_counterexample:
  \<open>execute json_loads (ToolExecutor_execute registry)
      [LLMToolCallDelta 0 (Some ''call_1'') (Some ''get_weather'') None,
       LLMFinished ''tool_calls'' 5 0]
    = ([Yield (ToolCallStarted ''call_1'' ''get_weather'')], Some JSONDecodeError)
   \<and> execute json_loads (ToolExecutor_execute registry)
      [LLMToolCallDelta 0 (Some ''call_1'') (Some ''unknown'') (Some ''{}''),
       LLMToolCallDelta 1 (Some ''call_2'') (Some ''get_weather'') (Some ''{}''),
       LLMFinished ''tool_calls'' 5 0]
    = ([Yield (ToolCallStarted ''call_1'' ''unknown''),
        Yield (ToolCallArgumentChunk ''call_1'' ''{}''),
        Yield (ToolCallStarted ''call_2'' ''get_weather''),
        Yield (ToolCallArgumentChunk ''call_2'' ''{}''),
        Yield (ToolCallCompleted
                 \<lparr>tc_id = ''call_1'', tc_name = ''unknown'', tc_arguments = JObject []\<rparr>),
        Execute \<lparr>tc_id = ''call_1'', tc_name = ''unknown'', tc_arguments = JObject []\<rparr>],
       Some (ToolNotFoundError ''unknown''))\<close>
  by (simp add: execute_def start_tool_call_def accumulate_arguments_def or_empty_def
        dict_getitem_def dict_values_def json_loads_empty json_loads_object
        ToolCall_new_def ToolExecutor_execute_def registry_def)

section \<open>Two calls in flight\<close>



section \<open>The formatted line of a completed tool call\<close>

text \<open>
  C7. The id and the name are written between double quotes without escaping.
  For the id \<open>a"b\<close> the payload after \<open>9:\<close> is not JSON; for an id with a
  backslash followed by \<open>n\<close> it decodes to a different id. The text of a
  \<open>TextDelta\<close>, which goes through \<open>json.dumps\<close>, does round-trip.
\<close>

theorem format_event_id_not_escaped:
  \<open>format_event json_dumps
      (ToolCallCompleted \<lparr>tc_id = ''a"b'', tc_name = ''t'', tc_arguments = JObject []\<rparr>)
     = ''9:{"toolCallId":"a"b","toolName":"t","args":{}}'' @ [CHR 0x0A]
   \<and> json_decode (''{"toolCallId":"a"b","toolName":"t","args":{}}'' @ [CHR 0x0A]) = Malformed
   \<and> json_decode (drop 2 (format_event json_dumps
        (ToolCallCompleted \<lparr>tc_id = [CHR ''a'', CHR 0x5C, CHR ''n'', CHR ''b''],
                            tc_name = ''t'', tc_arguments = JObject []\<rparr>)))
     = Scanned (JObject [(''toolCallId'', JString [CHR ''a'', CHR 0x0A, CHR ''b'']),
                         (''toolName'', JString ''t''), (''args'', JObject [])]) []
   \<and> json_decode (drop 2 (format_event json_dumps (TextDelta ''say "hi"'')))
     = Scanned (JString ''say "hi"'') []\<close>
  by code_simp

end
